theory Spec2Isabelle
  imports Complex_Main "HOL-Library.Word"
begin

unbundle bit_operations_syntax

section \<open>The texture grid display\<close>

text \<open>
  A shallow embedding of \<^verbatim>\<open>src/texture_grid_display.cpp\<close>: the message callback that
  turns an octree into per-depth point buckets, the colour functions, and the buffer
  hand-over to the render tick (\<^verbatim>\<open>update\<close>, \<^verbatim>\<open>clear\<close>, \<^verbatim>\<open>reset\<close>).

  Conventions.
  \<^item> \<^verbatim>\<open>double\<close> and \<^verbatim>\<open>float\<close> values are real numbers: neither rounding nor overflow
    to an infinity is modelled. Of the places where IEEE arithmetic leaves the reals,
    the division by zero is written out; an operation whose operands are finite and
    whose result exceeds the largest \<^verbatim>\<open>double\<close> is not.
  \<^item> \<^verbatim>\<open>unsigned short\<close> is \<open>16 word\<close>, \<^verbatim>\<open>unsigned int\<close> is \<open>32 word\<close>, \<^verbatim>\<open>int\<close> values that
    cannot overflow here are \<open>int\<close>.
  \<^item> A C++ operation without defined behaviour is a \<open>fault\<close>; a function that can meet one
    returns \<open>fault + 'a\<close>. A loop that may run forever returns an \<open>option\<close>, \<open>None\<close>
    meaning that it does not return.
  \<^item> The octomap library, rviz and Ogre are not part of the repository. The operations
    of theirs that the file calls are fields of the records below, so every theorem
    holds for any library behaviour behind them.
\<close>

subsection \<open>Data\<close>

text \<open>\<^verbatim>\<open>static const std::size_t max_octree_depth_ = sizeof(unsigned short) * 8;\<close>\<close>

definition max_octree_depth :: nat where
  "max_octree_depth = 2 * 8"

text \<open>\<^verbatim>\<open>octomap::OcTreeKey\<close>: three \<^verbatim>\<open>unsigned short\<close> coordinates, \<^verbatim>\<open>key[0]\<close>, \<^verbatim>\<open>key[1]\<close>, \<^verbatim>\<open>key[2]\<close>.\<close>

type_synonym key_type = "16 word"

datatype OcTreeKey = OcTreeKey (k0: key_type) (k1: key_type) (k2: key_type)

text \<open>
  A node of the \<^verbatim>\<open>octomap::TextureOcTree\<close>, as far as the file reads it: the occupancy
  probability and the six faces' accumulated value and observation count.
\<close>

record TextureOcTreeNode =
  getOccupancy :: real
  getFaceValue :: "nat \<Rightarrow> nat"
  getFaceObservations :: "nat \<Rightarrow> nat"

text \<open>
  One position of the leaf iterator \<^verbatim>\<open>octomap->begin(treeDepth)\<close>: the node \<^verbatim>\<open>*it\<close>,
  \<^verbatim>\<open>it.getKey()\<close>, \<^verbatim>\<open>it.getDepth()\<close> and the metric centre \<^verbatim>\<open>it.getX()\<close>, \<^verbatim>\<open>it.getY()\<close>,
  \<^verbatim>\<open>it.getZ()\<close>.
\<close>

record leaf =
  it_node :: TextureOcTreeNode
  it_key :: OcTreeKey
  it_depth :: nat
  it_x :: real
  it_y :: real
  it_z :: real

text \<open>
  The tree, through the member functions the file calls. \<open>search t key d\<close> is the
  library's \<^verbatim>\<open>search(key, depth)\<close>; \<open>d = None\<close> is the call that leaves the depth
  argument out, for which octomap searches at the full depth of the tree.
  \<open>leafs t d\<close> is the sequence that the iterator runs through from \<^verbatim>\<open>begin(d)\<close> to
  \<^verbatim>\<open>end()\<close>.
\<close>

record TextureOcTree =
  getTreeDepth :: nat
  getNodeSize :: "nat \<Rightarrow> real"
  getMetricMinZ :: real
  getMetricMaxZ :: real
  isNodeOccupied :: "TextureOcTreeNode \<Rightarrow> bool"
  search :: "OcTreeKey \<Rightarrow> nat option \<Rightarrow> TextureOcTreeNode option"
  leafs :: "nat \<Rightarrow> leaf list"

type_synonym vec3 = "real \<times> real \<times> real"

text \<open>
  \<^verbatim>\<open>rviz::PointCloud::Point\<close>: a position and a colour. A new point has Ogre's default
  colour, white, until \<^verbatim>\<open>setColor\<close> is called on it.
\<close>

record Point =
  position :: vec3
  color :: vec3

definition newPoint_at :: "vec3 \<Rightarrow> Point" where
  "newPoint_at p = \<lparr>position = p, color = (1, 1, 1)\<rparr>"

text \<open>\<^verbatim>\<open>rviz::PointCloud\<close>: the points drawn and the box dimensions.\<close>

record PointCloud =
  cloud_points :: "Point list"
  cloud_dimensions :: vec3

datatype fault =
    FloatToIntOfNaN
  | VectorIndexOutOfRange
  | FrontOfEmptyVector

datatype StatusLevel = Ok | Error

datatype StatusText =
    MessagesReceived nat
  | ZeroMessagesReceived
  | FailedToTransform string string
  | FailedToCreateOctree

datatype map_result = NoTree | OtherTree | TextureTree TextureOcTree

text \<open>
  The incoming message with what the collaborators make of it: \<open>getTransform\<close> is the
  result of the frame manager's \<^verbatim>\<open>getTransform(msg->header, pos, orient)\<close> (\<open>None\<close> when
  it returns false), \<open>msgToMap\<close> the result of \<^verbatim>\<open>octomap_msgs::msgToMap\<close> followed by the
  \<^verbatim>\<open>dynamic_cast\<close> to \<^verbatim>\<open>TextureOcTree*\<close>.
\<close>

record Octomap_msg =
  frame_id :: string
  getTransform :: "(vec3 \<times> (real \<times> vec3)) option"
  msgToMap :: map_result

text \<open>The members of \<^verbatim>\<open>TextureGridDisplay\<close> and the property values it reads.\<close>

record TextureGridDisplay =
  new_points_received :: bool
  messages_received :: nat
  color_factor :: real
  box_size :: "real list"
  cloud :: "PointCloud list"
  point_buf :: "Point list list"
  new_points :: "Point list list"
  octree_render_property :: int
  octree_coloring_property :: int
  tree_depth_property :: nat
  fixed_frame :: string
  scene_node :: "vec3 \<times> (real \<times> vec3)"
  status :: "string \<Rightarrow> (StatusLevel \<times> StatusText) option"

subsection \<open>The neighbour test\<close>

text \<open>
  \<^verbatim>\<open>(((int)octomap->isNodeOccupied(node)) + 1) & render_mode_mask\<close>, the test of lines
  349 and 368; \<open>occupied\<close> is \<^verbatim>\<open>octomap->isNodeOccupied\<close>.
\<close>

definition mask_test :: "(TextureOcTreeNode \<Rightarrow> bool) \<Rightarrow> int \<Rightarrow> TextureOcTreeNode \<Rightarrow> bool" where
  "mask_test occupied render_mode_mask node \<longleftrightarrow>
     (of_bool (occupied node) + 1) AND render_mode_mask \<noteq> 0"

text \<open>\<^verbatim>\<open>node && ...\<close> of line 368, for the result \<open>r\<close> of the lookup.\<close>

definition neighbor_found ::
  "(TextureOcTreeNode \<Rightarrow> bool) \<Rightarrow> int \<Rightarrow> TextureOcTreeNode option \<Rightarrow> bool" where
  "neighbor_found occupied render_mode_mask r =
     (case r of None \<Rightarrow> False | Some node \<Rightarrow> mask_test occupied render_mode_mask node)"

text \<open>
  The three nested loops of lines 357 to 376. The counters \<^verbatim>\<open>key[i]\<close> are
  \<^verbatim>\<open>unsigned short\<close>: the start value \<^verbatim>\<open>nKey[i] - 1\<close> and the increment wrap modulo
  \<open>2^16\<close>. The guard \<^verbatim>\<open>key[i] <= nKey[i] + 1\<close> is evaluated after integer promotion, so
  its right-hand side does not wrap. \<open>lookup\<close> is the call \<^verbatim>\<open>octomap->search(key)\<close>.
\<close>

partial_function (option) loop_x ::
  "(TextureOcTreeNode \<Rightarrow> bool) \<Rightarrow> int \<Rightarrow> (OcTreeKey \<Rightarrow> TextureOcTreeNode option) \<Rightarrow>
     OcTreeKey \<Rightarrow> key_type \<Rightarrow> key_type \<Rightarrow> key_type \<Rightarrow> bool \<Rightarrow> bool option" where
  "loop_x occupied render_mode_mask lookup nKey kz ky kx allNeighborsFound =
     (if allNeighborsFound \<and> uint kx \<le> uint (k0 nKey) + 1
      then loop_x occupied render_mode_mask lookup nKey kz ky (kx + 1)
             (if OcTreeKey kx ky kz \<noteq> nKey
              then (if \<not> neighbor_found occupied render_mode_mask (lookup (OcTreeKey kx ky kz))
                    then False else allNeighborsFound)
              else allNeighborsFound)
      else Some allNeighborsFound)"

partial_function (option) loop_y ::
  "(TextureOcTreeNode \<Rightarrow> bool) \<Rightarrow> int \<Rightarrow> (OcTreeKey \<Rightarrow> TextureOcTreeNode option) \<Rightarrow>
     OcTreeKey \<Rightarrow> key_type \<Rightarrow> key_type \<Rightarrow> bool \<Rightarrow> bool option" where
  "loop_y occupied render_mode_mask lookup nKey kz ky allNeighborsFound =
     (if allNeighborsFound \<and> uint ky \<le> uint (k1 nKey) + 1
      then Option.bind
             (loop_x occupied render_mode_mask lookup nKey kz ky (k0 nKey - 1) allNeighborsFound)
             (\<lambda>found. loop_y occupied render_mode_mask lookup nKey kz (ky + 1) found)
      else Some allNeighborsFound)"

partial_function (option) loop_z ::
  "(TextureOcTreeNode \<Rightarrow> bool) \<Rightarrow> int \<Rightarrow> (OcTreeKey \<Rightarrow> TextureOcTreeNode option) \<Rightarrow>
     OcTreeKey \<Rightarrow> key_type \<Rightarrow> bool \<Rightarrow> bool option" where
  "loop_z occupied render_mode_mask lookup nKey kz allNeighborsFound =
     (if allNeighborsFound \<and> uint kz \<le> uint (k2 nKey) + 1
      then Option.bind
             (loop_y occupied render_mode_mask lookup nKey kz (k1 nKey - 1) allNeighborsFound)
             (\<lambda>found. loop_z occupied render_mode_mask lookup nKey (kz + 1) found)
      else Some allNeighborsFound)"

declare loop_x.simps [code] loop_y.simps [code] loop_z.simps [code]

text \<open>
  Lines 346 to 379: \<^verbatim>\<open>display_voxel\<close> starts false; when the voxel's own state passes
  the mask, the loops run from \<^verbatim>\<open>allNeighborsFound = true\<close> and
  \<^verbatim>\<open>display_voxel |= !allNeighborsFound\<close>. The depth of the voxel is not read.
\<close>

definition visibility ::
  "(TextureOcTreeNode \<Rightarrow> bool) \<Rightarrow> int \<Rightarrow> (OcTreeKey \<Rightarrow> TextureOcTreeNode option) \<Rightarrow>
     leaf \<Rightarrow> bool option" where
  "visibility occupied render_mode_mask lookup it =
     (if mask_test occupied render_mode_mask (it_node it)
      then Option.bind
             (loop_z occupied render_mode_mask lookup (it_key it) (k2 (it_key it) - 1) True)
             (\<lambda>allNeighborsFound. Some (False \<or> \<not> allNeighborsFound))
      else Some False)"

definition display_voxel :: "TextureOcTree \<Rightarrow> int \<Rightarrow> leaf \<Rightarrow> bool option" where
  "display_voxel t render_mode_mask it =
     visibility (isNodeOccupied t) render_mode_mask (\<lambda>key. search t key None) it"


text \<open>
  The 26 neighbour positions of a key: offsets \<open>-1\<close>, \<open>0\<close>, \<open>+1\<close> on each axis in
  16-bit arithmetic, the key itself left out. \<open>all_neighbors_found\<close> says that the
  lookup at each of them finds a node that passes the mask.
\<close>

definition neighbor_keys :: "OcTreeKey \<Rightarrow> OcTreeKey list" where
  "neighbor_keys nKey =
     filter (\<lambda>key. key \<noteq> nKey)
       (concat (map (\<lambda>dz. concat (map (\<lambda>dy. map (\<lambda>dx.
            OcTreeKey (k0 nKey + dx) (k1 nKey + dy) (k2 nKey + dz))
          [- 1, 0, 1]) [- 1, 0, 1])) [- 1, 0, 1]))"

definition all_neighbors_found :: "TextureOcTree \<Rightarrow> int \<Rightarrow> OcTreeKey \<Rightarrow> bool" where
  "all_neighbors_found t render_mode_mask nKey =
     list_all (\<lambda>key. neighbor_found (isNodeOccupied t) render_mode_mask (search t key None))
       (neighbor_keys nKey)"

text \<open>
  A coordinate is interior when the three counter values around it neither wrap nor
  reach the top of the range: \<open>1 \<le> k \<le> 65533\<close>.
\<close>

definition interior :: "key_type \<Rightarrow> bool" where
  "interior k \<longleftrightarrow> 1 \<le> uint k \<and> uint k \<le> 65533"

definition interior_key :: "OcTreeKey \<Rightarrow> bool" where
  "interior_key nKey \<longleftrightarrow> interior (k0 nKey) \<and> interior (k1 nKey) \<and> interior (k2 nKey)"

text \<open>
  For the proofs: the counter values from \<open>lo\<close> up to \<open>n + 1\<close>, and the values a loop
  started at \<open>n - 1\<close> runs through, which are none when \<open>n = 0\<close>.
\<close>

definition in_range :: "key_type \<Rightarrow> key_type \<Rightarrow> key_type \<Rightarrow> bool" where
  "in_range n lo k \<longleftrightarrow> uint lo \<le> uint k \<and> uint k \<le> uint n + 1"

definition around :: "key_type \<Rightarrow> key_type \<Rightarrow> bool" where
  "around n k \<longleftrightarrow> n \<noteq> 0 \<and> in_range n (n - 1) k"

subsection \<open>Colours\<close>

text \<open>
  \<^verbatim>\<open>std::min(std::max((z_pos - min_z) / (max_z - min_z), 0.0), 1.0)\<close> of line 236. When
  \<^verbatim>\<open>max_z == min_z\<close> the divisor is \<open>+0\<close>: the quotient is \<open>+\<infinity>\<close> (clamped to 1),
  \<open>-\<infinity>\<close> (clamped to 0), or for \<open>0 / 0\<close> a NaN, which both \<^verbatim>\<open>std::max\<close> and
  \<^verbatim>\<open>std::min\<close> return unchanged (their comparisons with it are false); \<open>None\<close> is the NaN.

  The definition is on real numbers. It covers the code while \<^verbatim>\<open>z_pos - min_z\<close> and
  \<^verbatim>\<open>max_z - min_z\<close> stay within the range of \<^verbatim>\<open>double\<close>. Where both differences
  overflow, the code divides an infinity by an infinity and gets a NaN as well; this
  definition does not show that case, and what is proved from it below is about
  heights and bounds whose differences stay within the range.
\<close>

definition normalized_height :: "real \<Rightarrow> real \<Rightarrow> real \<Rightarrow> real option" where
  "normalized_height z_pos min_z max_z =
     (if max_z - min_z \<noteq> 0
      then Some (min (max ((z_pos - min_z) / (max_z - min_z)) 0) 1)
      else if z_pos - min_z > 0 then Some 1
      else if z_pos - min_z < 0 then Some 0
      else None)"

text \<open>
  \<^verbatim>\<open>setColor\<close>, lines 227 to 272. \<^verbatim>\<open>i = floor(h)\<close> converts a \<^verbatim>\<open>double\<close> to \<^verbatim>\<open>int\<close>, which
  has no defined result for a NaN.
\<close>

definition setColor :: "real \<Rightarrow> real \<Rightarrow> real \<Rightarrow> real \<Rightarrow> Point \<Rightarrow> fault + Point" where
  "setColor z_pos min_z max_z color_factor' point =
     (case normalized_height z_pos min_z max_z of
        None \<Rightarrow> Inl FloatToIntOfNaN
      | Some c \<Rightarrow>
          (let s = (1 :: real);
               v = (1 :: real);
               h0 = (1 - c) * color_factor';
               h1 = h0 - of_int \<lfloor>h0\<rfloor>;
               h = h1 * 6;
               i = \<lfloor>h\<rfloor>;
               f0 = h - of_int i;
               f = (if i AND 1 = 0 then 1 - f0 else f0);
               m = v * (1 - s);
               n = v * (1 - s * f)
           in Inr (point\<lparr>color :=
                (if i = 6 \<or> i = 0 then (v, n, m)
                 else if i = 1 then (n, v, m)
                 else if i = 2 then (m, v, n)
                 else if i = 3 then (m, n, v)
                 else if i = 4 then (n, m, v)
                 else if i = 5 then (v, m, n)
                 else (1, 0.5, 0.5))\<rparr>)))"

text \<open>\<^verbatim>\<open>setIntensity\<close>, lines 274 to 279.\<close>

definition setIntensity :: "real \<Rightarrow> Point \<Rightarrow> Point" where
  "setIntensity intensity point =
     (let i = max 0 (min 1 intensity) in point\<lparr>color := (i, i, i)\<rparr>)"

text \<open>
  The texture branch, lines 399 to 407. \<^verbatim>\<open>float cell_texture;\<close> is declared without an
  initialiser and the loop adds to it: \<open>uninit\<close> is the value the variable happens to
  hold. \<^verbatim>\<open>obs\<close> is an \<^verbatim>\<open>unsigned int\<close> and starts at 0.
\<close>

definition texture_step ::
  "TextureOcTreeNode \<Rightarrow> nat \<Rightarrow> real \<times> 32 word \<Rightarrow> real \<times> 32 word" where
  "texture_step node i acc =
     (fst acc + real (getFaceValue node i * getFaceObservations node i),
      snd acc + of_nat (getFaceObservations node i))"

definition cell_texture :: "real \<Rightarrow> TextureOcTreeNode \<Rightarrow> real" where
  "cell_texture uninit node =
     (let acc = fold (texture_step node) [0 ..< 6] (uninit, 0)
      in if snd acc < 1 then 0 else fst acc / (real (unat (snd acc)) * 255))"

text \<open>
  The intensity the specification describes, for comparison: the faces' values
  weighted by their observation counts, over the total count times 255, and 0 when
  the total is 0.
\<close>

definition weighted_average :: "TextureOcTreeNode \<Rightarrow> real" where
  "weighted_average node =
     (let total = (\<Sum>i \<leftarrow> [0 ..< 6]. getFaceObservations node i)
      in if total = 0 then 0
         else real (\<Sum>i \<leftarrow> [0 ..< 6]. getFaceValue node i * getFaceObservations node i)
              / (real total * 255))"

text \<open>
  The \<^verbatim>\<open>switch (octree_color_mode)\<close> of lines 396 to 419, on the option's integer:
  \<^verbatim>\<open>OCTOMAP_TEXTURE_COLOR = 0\<close>, \<^verbatim>\<open>OCTOMAP_Z_AXIS_COLOR = 1\<close>, \<^verbatim>\<open>OCTOMAP_PROBABLILTY_COLOR = 2\<close>.
\<close>

definition color_voxel ::
  "TextureOcTree \<Rightarrow> TextureGridDisplay \<Rightarrow> real \<Rightarrow> leaf \<Rightarrow> Point \<Rightarrow> fault + Point" where
  "color_voxel t d uninit it point =
     (if octree_coloring_property d = 0
      then Inr (setIntensity (cell_texture uninit (it_node it)) point)
      else if octree_coloring_property d = 1
      then setColor (snd (snd (position point))) (getMetricMinZ t) (getMetricMaxZ t)
             (color_factor d) point
      else if octree_coloring_property d = 2
      then Inr (point\<lparr>color :=
             (1 - getOccupancy (it_node it), getOccupancy (it_node it), 0)\<rparr>)
      else Inr point)"

subsection \<open>The message callback\<close>

text \<open>
  The traversal of lines 338 to 428 over the leaves \<open>its\<close> still to visit, with the
  buckets \<^verbatim>\<open>point_buf_\<close> and \<^verbatim>\<open>pointCount\<close>. \<open>uninit n\<close> is the indeterminate start value
  of \<^verbatim>\<open>cell_texture\<close> for the point pushed when \<^verbatim>\<open>pointCount\<close> is \<open>n\<close>.
  \<^verbatim>\<open>point_buf_[depth - 1]\<close> is computed in \<^verbatim>\<open>unsigned int\<close>: for depth 0 the index is
  \<open>2^32 - 1\<close>, out of range like any index at or past the vector's size.
\<close>

fun traverse ::
  "TextureOcTree \<Rightarrow> TextureGridDisplay \<Rightarrow> (nat \<Rightarrow> real) \<Rightarrow> leaf list \<Rightarrow>
     Point list list \<times> nat \<Rightarrow> (fault + Point list list \<times> nat) option" where
  "traverse t d uninit [] acc = Some (Inr acc)"
| "traverse t d uninit (it # its) acc =
     (if isNodeOccupied t (it_node it)
      then (case display_voxel t (octree_render_property d) it of
              None \<Rightarrow> None
            | Some False \<Rightarrow> traverse t d uninit its acc
            | Some True \<Rightarrow>
                (case color_voxel t d (uninit (snd acc)) it
                        (newPoint_at (it_x it, it_y it, it_z it)) of
                   Inl e \<Rightarrow> Some (Inl e)
                 | Inr newPoint \<Rightarrow>
                     (if it_depth it = 0 \<or> length (fst acc) \<le> it_depth it - 1
                      then Some (Inl VectorIndexOutOfRange)
                      else traverse t d uninit its
                             ((fst acc)[it_depth it - 1 :=
                                 fst acc ! (it_depth it - 1) @ [newPoint]],
                              snd acc + 1))))
      else traverse t d uninit its acc)"

text \<open>
  Lines 318 to 441, for a decoded tree. The buckets of \<^verbatim>\<open>point_buf_\<close> are cleared and
  the box sizes set (lines 328 to 332), the leaves down to
  \<^verbatim>\<open>std::min(tree_depth_property_->getInt(), octomap->getTreeDepth())\<close> are traversed, and
  only \<^verbatim>\<open>if (pointCount)\<close> is the flag set and each \<^verbatim>\<open>new_points_[i]\<close> swapped with
  \<^verbatim>\<open>point_buf_[i]\<close>. The maximum that line 319 gives the depth property is not modelled.
\<close>

definition process_tree ::
  "(nat \<Rightarrow> real) \<Rightarrow> TextureOcTree \<Rightarrow> TextureGridDisplay \<Rightarrow> (fault + TextureGridDisplay) option" where
  "process_tree uninit t d =
     (if length (point_buf d) < max_octree_depth \<or> length (box_size d) < max_octree_depth
      then Some (Inl VectorIndexOutOfRange)
      else
        (let d1 = d\<lparr>point_buf := replicate max_octree_depth [] @ drop max_octree_depth (point_buf d),
                     box_size := map (\<lambda>i. getNodeSize t (i + 1)) [0 ..< max_octree_depth]
                                 @ drop max_octree_depth (box_size d)\<rparr>;
             treeDepth = min (tree_depth_property d1) (getTreeDepth t)
         in case traverse t d1 uninit (leafs t treeDepth) (point_buf d1, 0) of
              None \<Rightarrow> None
            | Some (Inl e) \<Rightarrow> Some (Inl e)
            | Some (Inr (buf, pointCount)) \<Rightarrow>
                (if pointCount \<noteq> 0
                 then (if length (new_points d1) < max_octree_depth
                       then Some (Inl VectorIndexOutOfRange)
                       else Some (Inr (d1\<lparr>new_points_received := True,
                              new_points := take max_octree_depth buf
                                            @ drop max_octree_depth (new_points d1),
                              point_buf := take max_octree_depth (new_points d1)
                                           @ drop max_octree_depth buf\<rparr>)))
                 else Some (Inr (d1\<lparr>point_buf := buf\<rparr>)))))"

text \<open>\<^verbatim>\<open>incomingMessageCallback\<close>, lines 281 to 442.\<close>

definition incomingMessageCallback ::
  "(nat \<Rightarrow> real) \<Rightarrow> Octomap_msg \<Rightarrow> TextureGridDisplay \<Rightarrow> (fault + TextureGridDisplay) option" where
  "incomingMessageCallback uninit msg d =
     (let d1 = d\<lparr>messages_received := messages_received d + 1,
                  status := (status d)(''Messages'' \<mapsto>
                              (Ok, MessagesReceived (messages_received d + 1)))\<rparr>
      in case getTransform msg of
           None \<Rightarrow>
             Some (Inr (d1\<lparr>status := (status d1)(''Message'' \<mapsto>
                          (Error, FailedToTransform (frame_id msg) (fixed_frame d1)))\<rparr>))
         | Some pose \<Rightarrow>
             (let d2 = d1\<lparr>scene_node := pose\<rparr>
              in case msgToMap msg of
                   TextureTree t \<Rightarrow> process_tree uninit t d2
                 | _ \<Rightarrow>
                     Some (Inr (d2\<lparr>status := (status d2)(''Message'' \<mapsto>
                                  (Error, FailedToCreateOctree))\<rparr>))))"

subsection \<open>The render tick, clear and reset\<close>

text \<open>
  One round of the loop of \<^verbatim>\<open>update\<close>, lines 476 to 482.
  \<^verbatim>\<open>&new_points_[i].front()\<close> calls \<^verbatim>\<open>front()\<close>, which has no defined behaviour on an
  empty vector.
\<close>

definition update_level :: "nat \<Rightarrow> TextureGridDisplay \<Rightarrow> fault + TextureGridDisplay" where
  "update_level i d =
     (if length (box_size d) \<le> i \<or> length (cloud d) \<le> i \<or> length (new_points d) \<le> i
      then Inl VectorIndexOutOfRange
      else if new_points d ! i = [] then Inl FrontOfEmptyVector
      else Inr (d\<lparr>cloud := (cloud d)[i :=
                     \<lparr>cloud_points = new_points d ! i,
                      cloud_dimensions = (box_size d ! i, box_size d ! i, box_size d ! i)\<rparr>],
                  new_points := (new_points d)[i := []]\<rparr>))"

fun update_levels :: "nat list \<Rightarrow> TextureGridDisplay \<Rightarrow> fault + TextureGridDisplay" where
  "update_levels [] d = Inr d"
| "update_levels (i # is) d =
     (case update_level i d of Inl e \<Rightarrow> Inl e | Inr d' \<Rightarrow> update_levels is d')"

definition update :: "TextureGridDisplay \<Rightarrow> fault + TextureGridDisplay" where
  "update d =
     (if new_points_received d
      then (case update_levels [0 ..< max_octree_depth] d of
              Inl e \<Rightarrow> Inl e
            | Inr d' \<Rightarrow> Inr (d'\<lparr>new_points_received := False\<rparr>))
      else Inr d)"

text \<open>\<^verbatim>\<open>clear\<close>, lines 456 to 466, and \<^verbatim>\<open>reset\<close>, lines 489 to 494.\<close>

definition clear :: "TextureGridDisplay \<Rightarrow> TextureGridDisplay" where
  "clear d = d\<lparr>cloud := map (\<lambda>c. c\<lparr>cloud_points := []\<rparr>) (cloud d)\<rparr>"

definition reset :: "TextureGridDisplay \<Rightarrow> TextureGridDisplay" where
  "reset d =
     (let d1 = clear d
      in d1\<lparr>messages_received := 0,
            status := (status d1)(''Messages'' \<mapsto> (Ok, ZeroMessagesReceived))\<rparr>)"

text \<open>What \<^verbatim>\<open>onInitialize\<close> establishes: every vector has \<^verbatim>\<open>max_octree_depth_\<close> entries.\<close>

definition sized :: "TextureGridDisplay \<Rightarrow> bool" where
  "sized d \<longleftrightarrow>
     length (box_size d) = max_octree_depth \<and> length (cloud d) = max_octree_depth \<and>
     length (point_buf d) = max_octree_depth \<and> length (new_points d) = max_octree_depth"

subsection \<open>Notions the statements use\<close>


subsection \<open>Inputs for the examples\<close>

text \<open>
  A node with occupancy 1 and no face observations, a leaf of given key and depth
  holding it, and a tree of depth 16 given by its lookup function and its leaves; a
  node counts as occupied from probability one half.
\<close>

definition occupied_node :: TextureOcTreeNode where
  "occupied_node = \<lparr>getOccupancy = 1, getFaceValue = (\<lambda>_. 0), getFaceObservations = (\<lambda>_. 0)\<rparr>"

definition leaf_at :: "OcTreeKey \<Rightarrow> nat \<Rightarrow> leaf" where
  "leaf_at key depth =
     \<lparr>it_node = occupied_node, it_key = key, it_depth = depth, it_x = 1, it_y = 2, it_z = 3\<rparr>"

definition tree_with ::
  "(OcTreeKey \<Rightarrow> nat option \<Rightarrow> TextureOcTreeNode option) \<Rightarrow> leaf list \<Rightarrow> TextureOcTree" where
  "tree_with lookup its =
     \<lparr>getTreeDepth = 16, getNodeSize = (\<lambda>depth. 2 ^ (16 - depth) / 20),
      getMetricMinZ = - 10, getMetricMaxZ = 10,
      isNodeOccupied = (\<lambda>node. 1 / 2 \<le> getOccupancy node),
      search = lookup, leafs = (\<lambda>_. its)\<rparr>"

text \<open>
  The lookup function of a tree whose only node is a given leaf.
\<close>

definition leaf_only :: "leaf \<Rightarrow> OcTreeKey \<Rightarrow> nat option \<Rightarrow> TextureOcTreeNode option" where
  "leaf_only it key depth = (if key = it_key it then Some (it_node it) else None)"

text \<open>
  A leaf of the finest depth in the middle of the key range, alone in its tree
  (\<open>lone_tree\<close>) or with a node at every key (\<open>solid_tree\<close>).
\<close>

definition centre_leaf :: leaf where
  "centre_leaf = leaf_at (OcTreeKey 32768 32768 32768) 16"


definition lone_tree :: TextureOcTree where
  "lone_tree = tree_with (leaf_only centre_leaf) [centre_leaf]"

text \<open>
  A voxel of depth 15 at the top of the first coordinate, in a tree that lacks exactly
  the keys whose first coordinate is 1 (\<open>edge_tree\<close>), or none (\<open>wall_tree\<close>).
\<close>

definition edge_leaf :: leaf where
  "edge_leaf = leaf_at (OcTreeKey 65535 32769 32769) 15"

definition edge_tree :: TextureOcTree where
  "edge_tree =
     tree_with (\<lambda>key depth. if k0 key = 1 then None else Some occupied_node) [edge_leaf]"

definition wall_tree :: TextureOcTree where
  "wall_tree = tree_with (\<lambda>key depth. Some occupied_node) [edge_leaf]"

text \<open>
  A leaf of the finest depth whose first coordinate is 0, alone in its tree.
\<close>

definition corner_leaf :: leaf where
  "corner_leaf = leaf_at (OcTreeKey 0 32768 32768) 16"

definition corner_tree :: TextureOcTree where
  "corner_tree = tree_with (leaf_only corner_leaf) [corner_leaf]"







text \<open>
  A voxel of depth 14 that covers the keys 32768 to 32771 on each axis, alone in its
  tree: a lookup finds the voxel at the keys it covers, at any depth, and nothing
  elsewhere. The cells of depth 14 next to it are centred four keys away.
\<close>

definition block_leaf :: leaf where
  "block_leaf = leaf_at (OcTreeKey 32770 32770 32770) 14"

definition inside_block_leaf :: "OcTreeKey \<Rightarrow> bool" where
  "inside_block_leaf key \<longleftrightarrow>
     32768 \<le> uint (k0 key) \<and> uint (k0 key) \<le> 32771 \<and>
     32768 \<le> uint (k1 key) \<and> uint (k1 key) \<le> 32771 \<and>
     32768 \<le> uint (k2 key) \<and> uint (k2 key) \<le> 32771"

definition block_tree :: TextureOcTree where
  "block_tree =
     tree_with (\<lambda>key depth. if inside_block_leaf key then Some occupied_node else None)
       [block_leaf]"

text \<open>
  The display after construction and \<^verbatim>\<open>onInitialize\<close>, showing occupied voxels coloured
  by cell probability; the same with one point published in every bucket
  (\<open>full_display\<close>) or in the bucket of depth 16 only (\<open>one_point_display\<close>).
\<close>

definition blank_display :: TextureGridDisplay where
  "blank_display =
     \<lparr>new_points_received = False, messages_received = 0, color_factor = 0.8,
      box_size = replicate 16 0,
      cloud = replicate 16 \<lparr>cloud_points = [], cloud_dimensions = (0, 0, 0)\<rparr>,
      point_buf = replicate 16 [], new_points = replicate 16 [],
      octree_render_property = 2, octree_coloring_property = 2, tree_depth_property = 16,
      fixed_frame = ''map'', scene_node = ((0, 0, 0), (1, (0, 0, 0))),
      status = Map.empty\<rparr>"

definition green_point :: Point where
  "green_point = \<lparr>position = (1, 2, 3), color = (0, 1, 0)\<rparr>"

definition full_display :: TextureGridDisplay where
  "full_display =
     blank_display\<lparr>new_points := replicate 16 [green_point], new_points_received := True\<rparr>"

definition one_point_display :: TextureGridDisplay where
  "one_point_display =
     blank_display\<lparr>new_points := (replicate 16 [])[15 := [green_point]],
                    new_points_received := True\<rparr>"

text \<open>
  A tree without leaves, the message that carries a given tree in a resolvable frame,
  and a message whose frame the frame manager cannot resolve.
\<close>

definition void_tree :: TextureOcTree where
  "void_tree = tree_with (\<lambda>key depth. None) []"

definition msg_of :: "TextureOcTree \<Rightarrow> Octomap_msg" where
  "msg_of t =
     \<lparr>frame_id = ''map'', getTransform = Some ((0, 0, 0), (1, (0, 0, 0))),
      msgToMap = TextureTree t\<rparr>"

definition unknown_frame_msg :: Octomap_msg where
  "unknown_frame_msg = \<lparr>frame_id = ''nowhere'', getTransform = None, msgToMap = NoTree\<rparr>"

text \<open>
  A node with a single observation, of value 0, on its first face.
\<close>

definition one_observation_node :: TextureOcTreeNode where
  "one_observation_node =
     \<lparr>getOccupancy = 1, getFaceValue = (\<lambda>_. 0),
      getFaceObservations = (\<lambda>i. if i = 0 then 1 else 0)\<rparr>"

section \<open>Properties\<close>

subsection \<open>Counters and guards\<close>

lemma uint_Suc_key: "uint (k :: key_type) \<le> 65534 \<Longrightarrow> uint (k + 1) = uint k + 1"
  by (simp add: uint_plus_if')

lemma uint_pred_key:
  assumes "(k :: key_type) \<noteq> 0"
  shows "uint (k - 1) = uint k - 1"
proof -
  from assms have "uint k \<noteq> 0" by (simp add: word_uint_eq_iff)
  moreover have "0 \<le> uint k" by simp
  ultimately have "1 \<le> uint k" by linarith
  then show ?thesis by (simp add: uint_sub_if')
qed

lemma uint_key_minus_one: "uint (- 1 :: key_type) = 65535"
  by (simp add: unsigned_minus_1_eq_mask mask_eq_exp_minus_1)

lemma uint_key_le: "uint (k :: key_type) \<le> 65535"
  using uint_lt2p [of k] by simp

lemma start_guard: "(n :: key_type) \<noteq> 0 \<Longrightarrow> uint (n - 1) \<le> uint n + 1"
  by (simp add: uint_pred_key)

lemma in_range_step:
  assumes "uint (lo :: key_type) \<le> 65534"
  shows "in_range n lo k \<longleftrightarrow> (k = lo \<and> uint lo \<le> uint n + 1) \<or> in_range n (lo + 1) k"
proof -
  have "uint lo \<le> uint k \<longleftrightarrow> k = lo \<or> uint lo + 1 \<le> uint k"
    by (auto simp: word_uint_eq_iff)
  then show ?thesis
    unfolding in_range_def using uint_Suc_key [OF assms] by auto
qed

subsection \<open>The loops when no guard can wrap\<close>

text \<open>
  With \<open>nKey[i] \<le> 65533\<close> a loop ends after the counter value \<open>nKey[i] + 1\<close>: it returns
  the conjunction of the tests of all the rounds it runs.
\<close>

lemma loop_x_bounded:
  assumes "uint (k0 nKey) \<le> 65533" and "uint kx \<le> uint (k0 nKey) + 2"
  shows "loop_x t m lk nKey kz ky kx found =
     Some (found \<and> (\<forall>k. in_range (k0 nKey) kx k \<longrightarrow> OcTreeKey k ky kz \<noteq> nKey \<longrightarrow>
                      neighbor_found t m (lk (OcTreeKey k ky kz))))"
  using assms(2)
proof (induction "nat (uint (k0 nKey) + 2 - uint kx)" arbitrary: kx found)
  case 0
  then have "\<not> uint kx \<le> uint (k0 nKey) + 1" by simp
  then show ?case
    by (subst loop_x.simps) (auto simp: in_range_def)
next
  case (Suc d)
  then have guard: "uint kx \<le> uint (k0 nKey) + 1" by linarith
  with assms(1) have small: "uint kx \<le> 65534" by linarith
  have next_le: "uint (kx + 1) \<le> uint (k0 nKey) + 2"
    using guard uint_Suc_key [OF small] by simp
  have d: "d = nat (uint (k0 nKey) + 2 - uint (kx + 1))"
    using Suc.hyps(2) uint_Suc_key [OF small] by simp
  note IH = Suc.hyps(1) [OF d next_le]
  show ?case
  proof (cases found)
    case False
    then show ?thesis by (subst loop_x.simps) simp
  next
    case True
    have step: "\<And>k. in_range (k0 nKey) kx k \<longleftrightarrow> k = kx \<or> in_range (k0 nKey) (kx + 1) k"
      using in_range_step [OF small] guard by blast
    show ?thesis
      apply (subst loop_x.simps)
      apply (simp only: True guard simp_thms if_True IH)
      apply (auto simp: step)
      done
  qed
qed

lemma loop_y_bounded:
  assumes inner: "\<And>ky found. loop_x t m lk nKey kz ky (k0 nKey - 1) found = Some (found \<and> R ky)"
    and "uint (k1 nKey) \<le> 65533" and "uint ky \<le> uint (k1 nKey) + 2"
  shows "loop_y t m lk nKey kz ky found =
     Some (found \<and> (\<forall>k. in_range (k1 nKey) ky k \<longrightarrow> R k))"
  using assms(3)
proof (induction "nat (uint (k1 nKey) + 2 - uint ky)" arbitrary: ky found)
  case 0
  then have "\<not> uint ky \<le> uint (k1 nKey) + 1" by simp
  then show ?case
    by (subst loop_y.simps) (auto simp: in_range_def)
next
  case (Suc d)
  then have guard: "uint ky \<le> uint (k1 nKey) + 1" by linarith
  with assms(2) have small: "uint ky \<le> 65534" by linarith
  have next_le: "uint (ky + 1) \<le> uint (k1 nKey) + 2"
    using guard uint_Suc_key [OF small] by simp
  have d: "d = nat (uint (k1 nKey) + 2 - uint (ky + 1))"
    using Suc.hyps(2) uint_Suc_key [OF small] by simp
  note IH = Suc.hyps(1) [OF d next_le]
  show ?case
  proof (cases found)
    case False
    then show ?thesis by (subst loop_y.simps) simp
  next
    case True
    have step: "\<And>k. in_range (k1 nKey) ky k \<longleftrightarrow> k = ky \<or> in_range (k1 nKey) (ky + 1) k"
      using in_range_step [OF small] guard by blast
    show ?thesis
      apply (subst loop_y.simps)
      apply (simp only: True guard simp_thms if_True inner Option.bind.simps IH)
      apply (auto simp: step)
      done
  qed
qed

lemma loop_z_bounded:
  assumes inner: "\<And>kz found. loop_y t m lk nKey kz (k1 nKey - 1) found = Some (found \<and> Q kz)"
    and "uint (k2 nKey) \<le> 65533" and "uint kz \<le> uint (k2 nKey) + 2"
  shows "loop_z t m lk nKey kz found =
     Some (found \<and> (\<forall>k. in_range (k2 nKey) kz k \<longrightarrow> Q k))"
  using assms(3)
proof (induction "nat (uint (k2 nKey) + 2 - uint kz)" arbitrary: kz found)
  case 0
  then have "\<not> uint kz \<le> uint (k2 nKey) + 1" by simp
  then show ?case
    by (subst loop_z.simps) (auto simp: in_range_def)
next
  case (Suc d)
  then have guard: "uint kz \<le> uint (k2 nKey) + 1" by linarith
  with assms(2) have small: "uint kz \<le> 65534" by linarith
  have next_le: "uint (kz + 1) \<le> uint (k2 nKey) + 2"
    using guard uint_Suc_key [OF small] by simp
  have d: "d = nat (uint (k2 nKey) + 2 - uint (kz + 1))"
    using Suc.hyps(2) uint_Suc_key [OF small] by simp
  note IH = Suc.hyps(1) [OF d next_le]
  show ?case
  proof (cases found)
    case False
    then show ?thesis by (subst loop_z.simps) simp
  next
    case True
    have step: "\<And>k. in_range (k2 nKey) kz k \<longleftrightarrow> k = kz \<or> in_range (k2 nKey) (kz + 1) k"
      using in_range_step [OF small] guard by blast
    show ?thesis
      apply (subst loop_z.simps)
      apply (simp only: True guard simp_thms if_True inner Option.bind.simps IH)
      apply (auto simp: step)
      done
  qed
qed

lemma loop_x_start:
  assumes "uint (k0 nKey) \<le> 65533"
  shows "loop_x t m lk nKey kz ky (k0 nKey - 1) found =
     Some (found \<and> (\<forall>k. around (k0 nKey) k \<longrightarrow> OcTreeKey k ky kz \<noteq> nKey \<longrightarrow>
                      neighbor_found t m (lk (OcTreeKey k ky kz))))"
proof (cases "k0 nKey = 0")
  case True
  then show ?thesis
    by (subst loop_x.simps) (simp add: uint_key_minus_one around_def)
next
  case False
  then have "uint (k0 nKey - 1) \<le> uint (k0 nKey) + 2"
    by (simp add: uint_pred_key)
  from loop_x_bounded [OF assms this] False show ?thesis
    by (simp add: around_def)
qed

lemma loop_y_start:
  assumes inner: "\<And>ky found. loop_x t m lk nKey kz ky (k0 nKey - 1) found = Some (found \<and> R ky)"
    and "uint (k1 nKey) \<le> 65533"
  shows "loop_y t m lk nKey kz (k1 nKey - 1) found =
     Some (found \<and> (\<forall>k. around (k1 nKey) k \<longrightarrow> R k))"
proof (cases "k1 nKey = 0")
  case True
  then show ?thesis
    by (subst loop_y.simps) (simp add: uint_key_minus_one around_def)
next
  case False
  then have "uint (k1 nKey - 1) \<le> uint (k1 nKey) + 2"
    by (simp add: uint_pred_key)
  from loop_y_bounded [of t m lk nKey kz R, OF inner assms(2) this] False show ?thesis
    by (simp add: around_def)
qed

lemma loop_z_start:
  assumes inner: "\<And>kz found. loop_y t m lk nKey kz (k1 nKey - 1) found = Some (found \<and> Q kz)"
    and "uint (k2 nKey) \<le> 65533"
  shows "loop_z t m lk nKey (k2 nKey - 1) found =
     Some (found \<and> (\<forall>k. around (k2 nKey) k \<longrightarrow> Q k))"
proof (cases "k2 nKey = 0")
  case True
  then show ?thesis
    by (subst loop_z.simps) (simp add: uint_key_minus_one around_def)
next
  case False
  then have "uint (k2 nKey - 1) \<le> uint (k2 nKey) + 2"
    by (simp add: uint_pred_key)
  from loop_z_bounded [of t m lk nKey Q, OF inner assms(2) this] False show ?thesis
    by (simp add: around_def)
qed

lemma loops_small:
  assumes "uint (k0 nKey) \<le> 65533" "uint (k1 nKey) \<le> 65533" "uint (k2 nKey) \<le> 65533"
  shows "loop_z t m lk nKey (k2 nKey - 1) True =
     Some (\<forall>kz. around (k2 nKey) kz \<longrightarrow> (\<forall>ky. around (k1 nKey) ky \<longrightarrow>
        (\<forall>kx. around (k0 nKey) kx \<longrightarrow> OcTreeKey kx ky kz \<noteq> nKey \<longrightarrow>
                      neighbor_found t m (lk (OcTreeKey kx ky kz)))))"
proof -
  note x = loop_x_start [OF assms(1), of t m lk]
  note y = loop_y_start [of t m lk nKey, OF x assms(2)]
  note z = loop_z_start [of t m lk nKey, OF y assms(3)]
  show ?thesis using z [of True] by simp
qed

subsection \<open>The 26 neighbouring keys\<close>






lemma key_offsets_distinct:
  "(n :: key_type) - 1 \<noteq> n" "n + 1 \<noteq> n" "n - 1 \<noteq> n + 1"
  "n \<noteq> n - 1" "n \<noteq> n + 1" "n + 1 \<noteq> n - 1"
proof -
  have two: "(2 :: key_type) \<noteq> 0" by simp
  show "n - 1 \<noteq> n" "n + 1 \<noteq> n" by simp_all
  then show "n \<noteq> n - 1" "n \<noteq> n + 1" by simp_all
  have "n - 1 = n + 1 \<longleftrightarrow> (2 :: key_type) = 0"
    by (simp add: diff_eq_eq add.assoc)
  with two show "n - 1 \<noteq> n + 1" by simp
  then show "n + 1 \<noteq> n - 1" by (rule not_sym)
qed

lemma length_neighbor_keys: "length (neighbor_keys nKey) = 26"
proof -
  obtain x y z where k: "nKey = OcTreeKey x y z" by (cases nKey)
  show ?thesis
    unfolding k neighbor_keys_def using key_offsets_distinct by simp
qed

lemma neighbor_keys_nonempty: "\<exists>key. key \<in> set (neighbor_keys nKey)"
proof -
  have "neighbor_keys nKey \<noteq> []" using length_neighbor_keys [of nKey] by auto
  then show ?thesis by (simp add: ex_in_conv)
qed




lemma loops_zero:
  assumes "uint (k0 nKey) \<le> 65533" "uint (k1 nKey) \<le> 65533" "uint (k2 nKey) \<le> 65533"
    and "k0 nKey = 0 \<or> k1 nKey = 0 \<or> k2 nKey = 0"
  shows "loop_z t m lk nKey (k2 nKey - 1) True = Some True"
  unfolding loops_small [OF assms(1-3)] using assms(4) by (auto simp: around_def)

subsection \<open>The loops at the top of the key range\<close>

text \<open>
  With \<open>nKey[i] \<ge> 65534\<close> the guard \<^verbatim>\<open>key[i] <= nKey[i] + 1\<close> holds for every value of the
  counter, so the loop ends only through \<^verbatim>\<open>allNeighborsFound = false\<close>.
\<close>

lemma loop_x_high_aux:
  assumes "loop_x t m lk nKey kz ky kx found = Some r"
  shows "65534 \<le> uint (k0 nKey) \<longrightarrow> \<not> r"
proof (rule loop_x.raw_induct [where P = "\<lambda>t m lk nKey kz ky kx found r.
         65534 \<le> uint (k0 nKey) \<longrightarrow> \<not> r", OF _ assms], goal_cases)
  case (1 loop t m lk nKey kz ky kx found r)
  show ?case
  proof (rule impI)
    assume high: "65534 \<le> uint (k0 nKey)"
    then have guard: "uint kx \<le> uint (k0 nKey) + 1"
      using uint_key_le [of kx] by linarith
    show "\<not> r"
    proof (cases found)
      case True
      with 1(2) guard obtain f where "loop t m lk nKey kz ky (kx + 1) f = Some r"
        by simp
      from 1(1) [OF this] high show ?thesis by simp
    next
      case False
      with 1(2) show ?thesis by simp
    qed
  qed
qed

lemma loop_y_high_aux:
  assumes "loop_y t m lk nKey kz ky found = Some r"
  shows "65534 \<le> uint (k1 nKey) \<longrightarrow> \<not> r"
proof (rule loop_y.raw_induct [where P = "\<lambda>t m lk nKey kz ky found r.
         65534 \<le> uint (k1 nKey) \<longrightarrow> \<not> r", OF _ assms], goal_cases)
  case (1 loop t m lk nKey kz ky found r)
  show ?case
  proof (rule impI)
    assume high: "65534 \<le> uint (k1 nKey)"
    then have guard: "uint ky \<le> uint (k1 nKey) + 1"
      using uint_key_le [of ky] by linarith
    show "\<not> r"
    proof (cases found)
      case True
      with 1(2) guard obtain f where "loop t m lk nKey kz (ky + 1) f = Some r"
        by (auto simp: bind_eq_Some_conv)
      from 1(1) [OF this] high show ?thesis by simp
    next
      case False
      with 1(2) show ?thesis by simp
    qed
  qed
qed

lemma loop_z_high_aux:
  assumes "loop_z t m lk nKey kz found = Some r"
  shows "65534 \<le> uint (k2 nKey) \<longrightarrow> \<not> r"
proof (rule loop_z.raw_induct [where P = "\<lambda>t m lk nKey kz found r.
         65534 \<le> uint (k2 nKey) \<longrightarrow> \<not> r", OF _ assms], goal_cases)
  case (1 loop t m lk nKey kz found r)
  show ?case
  proof (rule impI)
    assume high: "65534 \<le> uint (k2 nKey)"
    then have guard: "uint kz \<le> uint (k2 nKey) + 1"
      using uint_key_le [of kz] by linarith
    show "\<not> r"
    proof (cases found)
      case True
      with 1(2) guard obtain f where "loop t m lk nKey (kz + 1) f = Some r"
        by (auto simp: bind_eq_Some_conv)
      from 1(1) [OF this] high show ?thesis by simp
    next
      case False
      with 1(2) show ?thesis by simp
    qed
  qed
qed

lemma loop_x_hangs_aux:
  assumes "loop_x t m lk nKey kz ky kx found = Some r"
  shows "65534 \<le> uint (k0 nKey) \<and> (\<forall>key. neighbor_found t m (lk key)) \<longrightarrow> \<not> found"
proof (rule loop_x.raw_induct [where P = "\<lambda>t m lk nKey kz ky kx found r.
         65534 \<le> uint (k0 nKey) \<and> (\<forall>key. neighbor_found t m (lk key)) \<longrightarrow> \<not> found",
       OF _ assms], goal_cases)
  case (1 loop t m lk nKey kz ky kx found r)
  show ?case
  proof (rule impI)
    assume high: "65534 \<le> uint (k0 nKey) \<and> (\<forall>key. neighbor_found t m (lk key))"
    then have guard: "uint kx \<le> uint (k0 nKey) + 1"
      using uint_key_le [of kx] by linarith
    show "\<not> found"
    proof
      assume found
      with 1(2) guard high have "loop t m lk nKey kz ky (kx + 1) True = Some r"
        by (auto split: if_splits)
      from 1(1) [OF this] high show False by simp
    qed
  qed
qed

lemma loop_x_hangs:
  assumes "65534 \<le> uint (k0 nKey)" and "\<forall>key. neighbor_found t m (lk key)"
  shows "loop_x t m lk nKey kz ky kx True = None"
proof (cases "loop_x t m lk nKey kz ky kx True")
  case (Some r)
  from loop_x_hangs_aux [OF Some] assms show ?thesis by simp
qed simp

lemma loop_stops_when_not_found:
  "loop_y t m lk nKey kz ky False = Some False" "loop_z t m lk nKey kz False = Some False"
  by (subst loop_y.simps, simp) (subst loop_z.simps, simp)

lemma loop_y_enter:
  assumes "k1 nKey \<noteq> 0"
  shows "loop_y t m lk nKey kz (k1 nKey - 1) True =
     Option.bind (loop_x t m lk nKey kz (k1 nKey - 1) (k0 nKey - 1) True)
       (\<lambda>found. loop_y t m lk nKey kz (k1 nKey - 1 + 1) found)"
  by (subst loop_y.simps) (simp add: start_guard [OF assms])

lemma loop_z_enter:
  assumes "k2 nKey \<noteq> 0"
  shows "loop_z t m lk nKey (k2 nKey - 1) True =
     Option.bind (loop_y t m lk nKey (k2 nKey - 1) (k1 nKey - 1) True)
       (\<lambda>found. loop_z t m lk nKey (k2 nKey - 1 + 1) found)"
  by (subst loop_z.simps) (simp add: start_guard [OF assms])

lemma loops_high:
  assumes ret: "loop_z t m lk nKey (k2 nKey - 1) True = Some r"
    and nz: "k0 nKey \<noteq> 0" "k1 nKey \<noteq> 0" "k2 nKey \<noteq> 0"
    and high: "65534 \<le> uint (k0 nKey) \<or> 65534 \<le> uint (k1 nKey) \<or> 65534 \<le> uint (k2 nKey)"
  shows "\<not> r"
proof (cases "65534 \<le> uint (k2 nKey)")
  case True
  with loop_z_high_aux [OF ret] show ?thesis by simp
next
  case z: False
  from ret obtain fy where
    y: "loop_y t m lk nKey (k2 nKey - 1) (k1 nKey - 1) True = Some fy"
    and z': "loop_z t m lk nKey (k2 nKey - 1 + 1) fy = Some r"
    unfolding loop_z_enter [OF nz(3)] by (auto simp: bind_eq_Some_conv)
  have "\<not> fy"
  proof (cases "65534 \<le> uint (k1 nKey)")
    case True
    with loop_y_high_aux [OF y] show ?thesis by simp
  next
    case False
    with z high have x: "65534 \<le> uint (k0 nKey)" by simp
    from y obtain fx where
      x': "loop_x t m lk nKey (k2 nKey - 1) (k1 nKey - 1) (k0 nKey - 1) True = Some fx"
      and y': "loop_y t m lk nKey (k2 nKey - 1) (k1 nKey - 1 + 1) fx = Some fy"
      unfolding loop_y_enter [OF nz(2)] by (auto simp: bind_eq_Some_conv)
    from loop_x_high_aux [OF x'] x have "\<not> fx" by simp
    with y' show ?thesis by (simp add: loop_stops_when_not_found)
  qed
  with z' show ?thesis by (simp add: loop_stops_when_not_found)
qed

lemma loops_hang:
  assumes "65534 \<le> uint (k0 nKey)" "k1 nKey \<noteq> 0" "k2 nKey \<noteq> 0"
    and "\<forall>key. neighbor_found t m (lk key)"
  shows "loop_z t m lk nKey (k2 nKey - 1) True = None"
  unfolding loop_z_enter [OF assms(3)] loop_y_enter [OF assms(2)]
  by (simp add: loop_x_hangs [OF assms(1,4)])

subsection \<open>The visibility decision\<close>


lemma visibility_zero:
  assumes "uint (k0 (it_key it)) \<le> 65533" "uint (k1 (it_key it)) \<le> 65533"
    "uint (k2 (it_key it)) \<le> 65533"
    and "k0 (it_key it) = 0 \<or> k1 (it_key it) = 0 \<or> k2 (it_key it) = 0"
  shows "visibility t m lk it = Some False"
  unfolding visibility_def by (simp add: loops_zero [OF assms])

lemma visibility_high:
  assumes "visibility t m lk it = Some b" and "mask_test t m (it_node it)"
    and "k0 (it_key it) \<noteq> 0" "k1 (it_key it) \<noteq> 0" "k2 (it_key it) \<noteq> 0"
    and "65534 \<le> uint (k0 (it_key it)) \<or> 65534 \<le> uint (k1 (it_key it)) \<or>
         65534 \<le> uint (k2 (it_key it))"
  shows b
proof -
  from assms(1,2) obtain r where
    r: "loop_z t m lk (it_key it) (k2 (it_key it) - 1) True = Some r" and b: "b = (\<not> r)"
    by (auto simp: visibility_def bind_eq_Some_conv)
  from loops_high [OF r assms(3-6)] b show ?thesis by simp
qed

lemma visibility_hang:
  assumes "mask_test t m (it_node it)"
    and "65534 \<le> uint (k0 (it_key it))" "k1 (it_key it) \<noteq> 0" "k2 (it_key it) \<noteq> 0"
    and "\<forall>key. neighbor_found t m (lk key)"
  shows "visibility t m lk it = None"
  unfolding visibility_def using assms(1) by (simp add: loops_hang [OF assms(2-5)])


subsection \<open>Height colour\<close>




lemma color_voxel_position:
  "color_voxel t d u it p = Inr p' \<Longrightarrow> position p' = position p"
  by (auto simp: color_voxel_def setIntensity_def setColor_def Let_def
        split: if_splits option.splits)


text \<open>
  Claim C9 against the code. When the height and both bounds coincide, the quotient
  of line 236 is \<open>0 / 0\<close>, a NaN; \<^verbatim>\<open>std::max\<close> and \<^verbatim>\<open>std::min\<close> pass it on, \<^verbatim>\<open>h\<close> is a NaN,
  and \<^verbatim>\<open>i = floor(h)\<close> converts it to \<^verbatim>\<open>int\<close>, which has no defined result: the call
  does not return a colour by any rule of the language, and the \<^verbatim>\<open>default\<close> branch
  is reached only if the conversion happens to give a value outside 0 to 6.
\<close>

theorem setColor_nan_counterexample:
  "setColor 0 0 0 (8 / 10) (newPoint_at (0, 0, 0)) = Inl FloatToIntOfNaN"
  by (simp add: setColor_def normalized_height_def)

subsection \<open>Texture colour\<close>

lemma fold_texture_step:
  "fold (texture_step node) is (ct, obs) =
     (ct + real (\<Sum>i \<leftarrow> is. getFaceValue node i * getFaceObservations node i),
      obs + of_nat (\<Sum>i \<leftarrow> is. getFaceObservations node i))"
  by (induction "is" arbitrary: ct obs) (simp_all add: texture_step_def algebra_simps)

lemma cell_texture_eq:
  "cell_texture uninit node =
     (let obs = (of_nat (\<Sum>i \<leftarrow> [0 ..< 6]. getFaceObservations node i) :: 32 word)
      in if obs = 0 then 0
         else (uninit + real (\<Sum>i \<leftarrow> [0 ..< 6]. getFaceValue node i * getFaceObservations node i))
              / (real (unat obs) * 255))"
  unfolding cell_texture_def fold_texture_step Let_def
  by (simp add: word_less_1)

lemma cell_texture_no_observations:
  assumes "\<forall>i < 6. getFaceObservations node i = 0"
  shows "cell_texture uninit node = 0"
proof -
  have z: "(\<Sum>i \<leftarrow> [0 ..< 6]. getFaceObservations node i) = 0"
    using assms by simp
  show ?thesis unfolding cell_texture_eq z by simp
qed

lemma cell_texture_initialised:
  assumes "(\<Sum>i \<leftarrow> [0 ..< 6]. getFaceObservations node i) < 2 ^ 32"
  shows "cell_texture 0 node = weighted_average node"
proof -
  let ?n = "\<Sum>i \<leftarrow> [0 ..< 6]. getFaceObservations node i"
  have u: "unat (of_nat ?n :: 32 word) = ?n"
    using assms by (simp add: unat_of_nat)
  have "(of_nat ?n :: 32 word) = 0 \<longleftrightarrow> unat (of_nat ?n :: 32 word) = 0"
    by (simp add: unat_eq_0)
  with u have "(of_nat ?n :: 32 word) = 0 \<longleftrightarrow> ?n = 0" by simp
  with u show ?thesis
    by (simp add: cell_texture_eq weighted_average_def Let_def)
qed

text \<open>
  Claim C8 against the code. The node has one observation, of value 0: the weighted
  average is 0. With 255 as the value that the uninitialised \<^verbatim>\<open>cell_texture\<close> happens to
  hold, the code computes the intensity 1 and colours the point white.
\<close>

theorem uninitialised_cell_texture:
  "weighted_average one_observation_node = 0 \<and>
   cell_texture 255 one_observation_node = 1 \<and>
   color (setIntensity (cell_texture 255 one_observation_node) (newPoint_at (1, 2, 3))) = (1, 1, 1)"
proof -
  have s: "(\<Sum>i \<leftarrow> [0 ..< 6]. getFaceObservations one_observation_node i) = 1"
    "(\<Sum>i \<leftarrow> [0 ..< 6]. getFaceValue one_observation_node i * getFaceObservations one_observation_node i) = 0"
    by (simp_all add: one_observation_node_def upt_rec)
  show ?thesis
    by (simp add: cell_texture_eq weighted_average_def s Let_def setIntensity_def)
qed

subsection \<open>The examples evaluated\<close>

lemma tree_with_sel [simp]:
  "search (tree_with lookup its) = lookup" "leafs (tree_with lookup its) d = its"
  "getTreeDepth (tree_with lookup its) = 16"
  "isNodeOccupied (tree_with lookup its) node \<longleftrightarrow> 1 / 2 \<le> getOccupancy node"
  "getMetricMinZ (tree_with lookup its) = - 10" "getMetricMaxZ (tree_with lookup its) = 10"
  by (simp_all add: tree_with_def)

lemma leaf_at_sel [simp]:
  "it_node (leaf_at key depth) = occupied_node" "it_key (leaf_at key depth) = key"
  "it_depth (leaf_at key depth) = depth" "it_x (leaf_at key depth) = 1"
  "it_y (leaf_at key depth) = 2" "it_z (leaf_at key depth) = 3"
  by (simp_all add: leaf_at_def)

lemma mask_test_occupied [simp]:
  "mask_test (isNodeOccupied (tree_with lookup its)) 2 occupied_node"
  by (simp add: mask_test_def tree_with_def occupied_node_def)

lemma neighbor_found_simps [simp]:
  "neighbor_found occ m None = False"
  "neighbor_found occ m (Some node) = mask_test occ m node"
  by (simp_all add: neighbor_found_def)

lemma interior_32768 [simp]: "interior_key (OcTreeKey 32768 32768 32768)"
  by (simp add: interior_key_def interior_def)


lemma display_lone: "display_voxel lone_tree 2 centre_leaf = Some True"
  by code_simp

lemma display_edge: "display_voxel edge_tree 2 edge_leaf = Some True"
  by code_simp

lemma all_found_edge: "all_neighbors_found edge_tree 2 (it_key edge_leaf)"
  by code_simp

lemma traverse_lone:
  "traverse lone_tree blank_display (\<lambda>_. 0) [centre_leaf] (replicate 16 [], 0) =
     Some (Inr ((replicate 16 [])[15 := [green_point]], 1))"
proof -
  have r: "octree_render_property blank_display = 2" "octree_coloring_property blank_display = 2"
    by (simp_all add: blank_display_def)
  have o: "isNodeOccupied lone_tree (it_node centre_leaf)"
    by (simp add: lone_tree_def centre_leaf_def occupied_node_def)
  then show ?thesis
    by (simp add: r display_lone color_voxel_def newPoint_at_def green_point_def)
      (simp add: centre_leaf_def occupied_node_def)
qed

subsection \<open>Visibility of a voxel among its neighbours\<close>

text \<open>
  Claim C3 against the code. The voxel of depth 14 is alone in its tree, lies above
  the traversal depth 16 and passes the mask. None of its 26 neighbours exists: the
  neighbouring cell of its own depth centred at (32774, 32770, 32770) holds no node,
  with or without a depth in the lookup. The code decides that the voxel is not
  visible: its 26 lookups are made one key of the finest grid away, at keys that the
  voxel itself covers, and each of them finds the voxel.
\<close>

theorem coarse_voxel_counterexample:
  "mask_test (isNodeOccupied block_tree) 2 (it_node block_leaf) \<and>
   it_depth block_leaf < min (tree_depth_property blank_display) (getTreeDepth block_tree) \<and>
   search block_tree (OcTreeKey 32774 32770 32770) (Some (it_depth block_leaf)) = None \<and>
   search block_tree (OcTreeKey 32774 32770 32770) None = None \<and>
   display_voxel block_tree 2 block_leaf = Some False"
  by code_simp

text \<open>
  The keys that the lookups of this voxel go to all lie inside it.
\<close>

lemma block_leaf_lookups_inside:
  "list_all inside_block_leaf (neighbor_keys (it_key block_leaf))"
  by code_simp

text \<open>
  At the border of the key range the decision goes wrong the other way. The voxel of
  depth 15 with key (65535, 32769, 32769) passes the mask, in \<open>edge_tree\<close> each of its
  26 neighbouring keys holds a matching node, and yet it is visible: the innermost
  counter runs through 65534 and 65535, wraps to 0 and goes on to 1, where no node is.
\<close>

lemma edge_voxel_visible:
  "mask_test (isNodeOccupied edge_tree) 2 (it_node edge_leaf) \<and>
   it_depth edge_leaf < min (tree_depth_property blank_display) (getTreeDepth edge_tree) \<and>
   all_neighbors_found edge_tree 2 (it_key edge_leaf) \<and>
   display_voxel edge_tree 2 edge_leaf = Some True"
  by (simp add: display_edge all_found_edge) (simp add: edge_tree_def edge_leaf_def blank_display_def)







subsection \<open>Keys at the border of the range\<close>

text \<open>
  The counters are 16-bit and wrap, the guards are compared after integer promotion
  and do not. When a key coordinate is 0 and none exceeds 65533, the start value
  \<open>0 - 1 = 65535\<close> fails the guard \<open>65535 \<le> 0 + 1\<close>: the loop of that axis makes no
  round, no neighbour fails, and the voxel is not visible whatever the tree holds.
  When a coordinate is 65534 or 65535 and none is 0, the guard of that axis never
  fails: a voxel that passes the mask is never decided invisible, and with a first
  coordinate that high no decision is reached at all if every lookup finds a matching
  node.
\<close>

lemma boundary_key_visibility:
  "((k0 (it_key it) = 0 \<or> k1 (it_key it) = 0 \<or> k2 (it_key it) = 0) \<and>
    uint (k0 (it_key it)) \<le> 65533 \<and> uint (k1 (it_key it)) \<le> 65533 \<and>
    uint (k2 (it_key it)) \<le> 65533
      \<longrightarrow> display_voxel t m it = Some False) \<and>
   (mask_test (isNodeOccupied t) m (it_node it) \<and>
    k0 (it_key it) \<noteq> 0 \<and> k1 (it_key it) \<noteq> 0 \<and> k2 (it_key it) \<noteq> 0 \<and>
    (65534 \<le> uint (k0 (it_key it)) \<or> 65534 \<le> uint (k1 (it_key it)) \<or>
     65534 \<le> uint (k2 (it_key it)))
      \<longrightarrow> display_voxel t m it \<noteq> Some False) \<and>
   (mask_test (isNodeOccupied t) m (it_node it) \<and>
    65534 \<le> uint (k0 (it_key it)) \<and> k1 (it_key it) \<noteq> 0 \<and> k2 (it_key it) \<noteq> 0 \<and>
    (\<forall>key. neighbor_found (isNodeOccupied t) m (search t key None))
      \<longrightarrow> display_voxel t m it = None)"
  unfolding display_voxel_def
  using visibility_zero [of it "isNodeOccupied t" m "\<lambda>key. search t key None"]
    visibility_high [of "isNodeOccupied t" m "\<lambda>key. search t key None" it False]
    visibility_hang [of "isNodeOccupied t" m it "\<lambda>key. search t key None"]
  by blast

text \<open>
  The leaf with first coordinate 0 alone in its tree is not visible; the voxel with
  first coordinate 65535 is visible in \<open>edge_tree\<close>, after lookups at the wrapped keys
  with first coordinate 0 and 1, and gets no decision in \<open>wall_tree\<close>.
\<close>

lemma boundary_key_examples:
  "(k0 (it_key corner_leaf) = 0 \<and> display_voxel corner_tree 2 corner_leaf = Some False) \<and>
   (uint (k0 (it_key edge_leaf)) = 65535 \<and> display_voxel edge_tree 2 edge_leaf = Some True) \<and>
   (\<forall>key. neighbor_found (isNodeOccupied wall_tree) 2 (search wall_tree key None)) \<and>
   display_voxel wall_tree 2 edge_leaf = None"
proof -
  have k: "it_key corner_leaf = OcTreeKey 0 32768 32768"
    "it_key edge_leaf = OcTreeKey 65535 32769 32769"
    by (simp_all add: corner_leaf_def edge_leaf_def)
  have m: "mask_test (isNodeOccupied wall_tree) 2 (it_node edge_leaf)"
    by (simp add: wall_tree_def edge_leaf_def)
  have f: "\<forall>key. neighbor_found (isNodeOccupied wall_tree) 2 (search wall_tree key None)"
    by (simp add: wall_tree_def)
  from boundary_key_visibility [of corner_leaf corner_tree 2]
  have 1: "display_voxel corner_tree 2 corner_leaf = Some False"
    by (simp add: k)
  from boundary_key_visibility [of edge_leaf wall_tree 2] m f
  have 3: "display_voxel wall_tree 2 edge_leaf = None"
    by (simp add: k)
  from 1 3 f display_edge show ?thesis by (simp add: k)
qed

text \<open>
  Claim C10 against the code. The corner leaf has the first coordinate 0. The key
  (65535, 32768, 32768), one step below it in 16-bit arithmetic, is one of its 26
  neighbouring keys and holds no node. The code makes no lookup there and decides
  that the leaf is not visible.
\<close>

theorem zero_key_voxel_hidden:
  "k0 (it_key corner_leaf) = 0 \<and>
   OcTreeKey 65535 32768 32768 \<in> set (neighbor_keys (it_key corner_leaf)) \<and>
   search corner_tree (OcTreeKey 65535 32768 32768) None = None \<and>
   display_voxel corner_tree 2 corner_leaf = Some False"
  by code_simp

subsection \<open>Aborted passes\<close>

text \<open>
  Claim C7. When the frame manager cannot resolve the message's frame, or the payload
  does not decode to a texture octree, the callback returns with an error under the
  status key \<open>Message\<close>, and the point buckets of both generations, the box sizes, the
  flag \<^verbatim>\<open>new_points_received_\<close> and the drawn clouds are what they were before the call.
\<close>

theorem failed_pass_leaves_buffers:
  assumes "getTransform msg = None \<or> (\<forall>t. msgToMap msg \<noteq> TextureTree t)"
  shows "\<exists>d' txt. incomingMessageCallback uninit msg d = Some (Inr d') \<and>
           status d' ''Message'' = Some (Error, txt) \<and>
           point_buf d' = point_buf d \<and> new_points d' = new_points d \<and>
           box_size d' = box_size d \<and> new_points_received d' = new_points_received d \<and>
           cloud d' = cloud d"
proof (cases "getTransform msg")
  case None
  then show ?thesis by (simp add: incomingMessageCallback_def)
next
  case (Some pose)
  with assms have "\<forall>t. msgToMap msg \<noteq> TextureTree t" by simp
  with Some show ?thesis
    by (cases "msgToMap msg") (simp_all add: incomingMessageCallback_def)
qed

text \<open>
  An instance of C7: a message in an unknown frame, received by the blank display.
\<close>

theorem failed_pass_leaves_buffers_witness:
  "getTransform unknown_frame_msg = None \<and>
   (\<exists>d' txt. incomingMessageCallback (\<lambda>_. 0) unknown_frame_msg blank_display = Some (Inr d') \<and>
           status d' ''Message'' = Some (Error, txt) \<and>
           point_buf d' = point_buf blank_display \<and> new_points d' = new_points blank_display \<and>
           box_size d' = box_size blank_display \<and>
           new_points_received d' = new_points_received blank_display \<and>
           cloud d' = cloud blank_display)"
  using failed_pass_leaves_buffers [of unknown_frame_msg "\<lambda>_. 0" blank_display]
  by (simp add: unknown_frame_msg_def)

subsection \<open>Publishing a pass\<close>

lemma color_voxel_config:
  assumes "octree_coloring_property d = octree_coloring_property d'"
    and "color_factor d = color_factor d'"
  shows "color_voxel t d u it p = color_voxel t d' u it p"
  using assms by (simp add: color_voxel_def)

lemma traverse_config:
  assumes "octree_render_property d = octree_render_property d'"
    and "octree_coloring_property d = octree_coloring_property d'"
    and "color_factor d = color_factor d'"
  shows "traverse t d uninit its acc = traverse t d' uninit its acc"
proof (induction its arbitrary: acc)
  case Nil
  show ?case by simp
next
  case (Cons it its)
  show ?case
    by (simp add: assms(1) color_voxel_config [OF assms(2,3)] Cons.IH
          split: option.splits bool.splits sum.splits)
qed

lemma traverse_length:
  "traverse t d uninit its acc = Some (Inr acc') \<Longrightarrow> length (fst acc') = length (fst acc)"
proof (induction its arbitrary: acc)
  case Nil
  then show ?case by simp
next
  case (Cons it its)
  show ?case
  proof (cases "isNodeOccupied t (it_node it)")
    case False
    with Cons show ?thesis by simp
  next
    case True
    with Cons.prems obtain b where b: "display_voxel t (octree_render_property d) it = Some b"
      by (auto split: option.splits)
    show ?thesis
    proof (cases b)
      case False
      with Cons True b show ?thesis by simp
    next
      case vis: True
      with Cons.prems True b obtain p where
        "traverse t d uninit its
           ((fst acc)[it_depth it - 1 := fst acc ! (it_depth it - 1) @ [p]], snd acc + 1) =
         Some (Inr acc')"
        by (auto split: sum.splits if_splits)
      from Cons.IH [OF this] show ?thesis by simp
    qed
  qed
qed

lemma process_tree_eq:
  assumes "sized d"
  shows "process_tree uninit t d =
      (case traverse t d uninit (leafs t (min (tree_depth_property d) (getTreeDepth t)))
              (replicate max_octree_depth [], 0) of
         None \<Rightarrow> None
       | Some (Inl e) \<Rightarrow> Some (Inl e)
       | Some (Inr (buf, pointCount)) \<Rightarrow>
           Some (Inr (if pointCount \<noteq> 0
             then d\<lparr>box_size := map (\<lambda>i. getNodeSize t (i + 1)) [0 ..< max_octree_depth],
                    new_points_received := True, new_points := buf, point_buf := new_points d\<rparr>
             else d\<lparr>box_size := map (\<lambda>i. getNodeSize t (i + 1)) [0 ..< max_octree_depth],
                    point_buf := buf\<rparr>)))"
proof -
  let ?its = "leafs t (min (tree_depth_property d) (getTreeDepth t))"
  define d1 where "d1 = d\<lparr>point_buf := replicate max_octree_depth [] @ drop max_octree_depth (point_buf d),
      box_size := map (\<lambda>i. getNodeSize t (i + 1)) [0 ..< max_octree_depth]
                  @ drop max_octree_depth (box_size d)\<rparr>"
  have cfg: "traverse t d1 uninit ?its acc = traverse t d uninit ?its acc" for acc
    by (rule traverse_config) (simp_all add: d1_def)
  from assms have len: "length (point_buf d) = max_octree_depth"
    "length (box_size d) = max_octree_depth" "length (new_points d) = max_octree_depth"
    by (simp_all add: sized_def)
  then have d1: "point_buf d1 = replicate max_octree_depth []" "new_points d1 = new_points d"
    "tree_depth_property d1 = tree_depth_property d"
    by (simp_all add: d1_def)
  show ?thesis
  proof (cases "traverse t d uninit ?its (replicate max_octree_depth [], 0)")
    case None
    then show ?thesis
      unfolding process_tree_def Let_def d1_def [symmetric] d1 cfg using len by simp
  next
    case (Some r)
    show ?thesis
    proof (cases r)
      case (Inl e)
      with Some show ?thesis
        unfolding process_tree_def Let_def d1_def [symmetric] d1 cfg using len by simp
    next
      case (Inr acc)
      obtain buf pointCount where acc: "acc = (buf, pointCount)" by (cases acc)
      from traverse_length [OF Some [unfolded Inr]] have "length (fst acc) = max_octree_depth"
        by simp
      with acc have "length buf = max_octree_depth" by simp
      with Some Inr acc len show ?thesis
        unfolding process_tree_def Let_def d1_def [symmetric] d1 cfg
        by (simp add: d1_def)
    qed
  qed
qed

text \<open>
  Claim C5, as the code has it. Take a message that is transformed and decoded, and a
  display whose vectors have their 16 entries. When the traversal from empty buckets
  returns some buckets and a point count, the callback returns. If the count is not 0,
  \<^verbatim>\<open>new_points_\<close> holds exactly these buckets afterwards and the flag
  \<^verbatim>\<open>new_points_received_\<close> is set. If the count is 0, \<^verbatim>\<open>new_points_\<close> and the flag are what
  they were before the call.
\<close>

theorem pass_publishes_only_points:
  assumes "getTransform msg = Some pose" and "msgToMap msg = TextureTree t" and "sized d"
    and "traverse t d uninit (leafs t (min (tree_depth_property d) (getTreeDepth t)))
           (replicate max_octree_depth [], 0) = Some (Inr (buf, pointCount))"
  shows "\<exists>d'. incomingMessageCallback uninit msg d = Some (Inr d') \<and>
           (if pointCount \<noteq> 0
            then new_points d' = buf \<and> new_points_received d'
            else new_points d' = new_points d \<and>
                 new_points_received d' = new_points_received d)"
proof -
  define d2 where "d2 = d\<lparr>messages_received := messages_received d + 1,
      status := (status d)(''Messages'' \<mapsto> (Ok, MessagesReceived (messages_received d + 1))),
      scene_node := pose\<rparr>"
  have same: "new_points d2 = new_points d" "new_points_received d2 = new_points_received d"
    "tree_depth_property d2 = tree_depth_property d"
    by (simp_all add: d2_def)
  have cfg: "traverse t d2 uninit its acc = traverse t d uninit its acc" for its acc
    by (rule traverse_config) (simp_all add: d2_def)
  from assms(3) have s: "sized d2" by (simp add: sized_def d2_def)
  from assms(1,2) have "incomingMessageCallback uninit msg d = process_tree uninit t d2"
    by (simp add: incomingMessageCallback_def d2_def Let_def)
  then show ?thesis
    unfolding process_tree_eq [OF s] same cfg assms(4) by (simp add: same)
qed

text \<open>
  An instance of C5: a pass over \<open>lone_tree\<close> replaces the sixteen points published
  before it by its single point.
\<close>

theorem pass_publishes_only_points_witness:
  "getTransform (msg_of lone_tree) = Some ((0, 0, 0), (1, (0, 0, 0))) \<and>
   msgToMap (msg_of lone_tree) = TextureTree lone_tree \<and> sized full_display \<and>
   traverse lone_tree full_display (\<lambda>_. 0)
      (leafs lone_tree (min (tree_depth_property full_display) (getTreeDepth lone_tree)))
      (replicate max_octree_depth [], 0) =
     Some (Inr ((replicate 16 [])[15 := [green_point]], 1)) \<and>
   (\<exists>d'. incomingMessageCallback (\<lambda>_. 0) (msg_of lone_tree) full_display = Some (Inr d') \<and>
      new_points d' = (replicate 16 [])[15 := [green_point]] \<and> new_points_received d')"
proof -
  have m: "getTransform (msg_of lone_tree) = Some ((0, 0, 0), (1, (0, 0, 0)))"
    "msgToMap (msg_of lone_tree) = TextureTree lone_tree"
    by (simp_all add: msg_of_def)
  have s: "sized full_display"
    by (simp add: sized_def full_display_def blank_display_def max_octree_depth_def)
  have c: "octree_render_property full_display = octree_render_property blank_display"
    "octree_coloring_property full_display = octree_coloring_property blank_display"
    "color_factor full_display = color_factor blank_display"
    "tree_depth_property full_display = 16"
    by (simp_all add: full_display_def blank_display_def)
  have l: "leafs lone_tree (min (tree_depth_property full_display) (getTreeDepth lone_tree)) =
      [centre_leaf]"
    by (simp add: lone_tree_def)
  have mx: "max_octree_depth = 16" by (simp add: max_octree_depth_def)
  have "traverse lone_tree full_display (\<lambda>_. 0) [centre_leaf] (replicate 16 [], 0) =
      traverse lone_tree blank_display (\<lambda>_. 0) [centre_leaf] (replicate 16 [], 0)"
    by (rule traverse_config [OF c(1-3)])
  with traverse_lone have t: "traverse lone_tree full_display (\<lambda>_. 0)
      (leafs lone_tree (min (tree_depth_property full_display) (getTreeDepth lone_tree)))
      (replicate max_octree_depth [], 0) =
     Some (Inr ((replicate 16 [])[15 := [green_point]], 1))"
    unfolding l mx by (simp only:)
  from pass_publishes_only_points [OF m s t] m s t show ?thesis by simp
qed

text \<open>
  C5 as stated fails for a pass without points: after a pass over the tree without
  leaves, \<^verbatim>\<open>new_points_\<close> still holds the points published before, and from the blank
  display the flag is still not set.
\<close>

theorem empty_pass_counterexample:
  "(case incomingMessageCallback (\<lambda>_. 0) (msg_of void_tree) full_display of
      Some (Inr d') \<Rightarrow> new_points d' = replicate 16 [green_point]
    | _ \<Rightarrow> False) \<and>
   (case incomingMessageCallback (\<lambda>_. 0) (msg_of void_tree) blank_display of
      Some (Inr d') \<Rightarrow> \<not> new_points_received d'
    | _ \<Rightarrow> False)"
  by code_simp

subsection \<open>The render tick\<close>

lemma update_level_Inr:
  "update_level i d = Inr d' \<Longrightarrow>
     new_points d ! i \<noteq> [] \<and> new_points d' = (new_points d)[i := []] \<and>
     box_size d' = box_size d \<and> length (cloud d') = length (cloud d) \<and>
     new_points_received d' = new_points_received d"
  by (auto simp: update_level_def split: if_splits)

lemma update_levels_Inr:
  "update_levels is d = Inr d' \<Longrightarrow> distinct is \<Longrightarrow> \<forall>i \<in> set is. new_points d ! i \<noteq> []"
proof (induction "is" arbitrary: d)
  case Nil
  then show ?case by simp
next
  case (Cons i "is")
  from Cons.prems(1) obtain d1 where
    1: "update_level i d = Inr d1" and 2: "update_levels is d1 = Inr d'"
    by (auto split: sum.splits)
  from update_level_Inr [OF 1] have
    i: "new_points d ! i \<noteq> []" and n: "new_points d1 = (new_points d)[i := []]" by simp_all
  from Cons.IH [OF 2] Cons.prems(2) have "\<forall>j \<in> set is. new_points d1 ! j \<noteq> []" by simp
  with n Cons.prems(2) have "\<forall>j \<in> set is. new_points d ! j \<noteq> []"
    by (metis distinct.simps(2) nth_list_update_neq)
  with i show ?case by simp
qed

lemma update_level_Inl:
  assumes "update_level i d = Inl e" and "i < length (box_size d)" "i < length (cloud d)"
    "i < length (new_points d)"
  shows "e = FrontOfEmptyVector"
  using assms by (auto simp: update_level_def split: if_splits)

lemma update_levels_Inl:
  "update_levels is d = Inl e \<Longrightarrow>
     \<forall>i \<in> set is. i < length (box_size d) \<and> i < length (cloud d) \<and> i < length (new_points d) \<Longrightarrow>
     e = FrontOfEmptyVector"
proof (induction "is" arbitrary: d)
  case Nil
  then show ?case by simp
next
  case (Cons i "is")
  show ?case
  proof (cases "update_level i d")
    case (Inl e')
    with Cons.prems show ?thesis by (auto dest: update_level_Inl)
  next
    case (Inr d1)
    with Cons.prems(1) have 2: "update_levels is d1 = Inl e" by simp
    from update_level_Inr [OF Inr] have "box_size d1 = box_size d"
      "length (cloud d1) = length (cloud d)" "length (new_points d1) = length (new_points d)"
      by simp_all
    with Cons.prems(2) Cons.IH [OF 2] show ?thesis by simp
  qed
qed

lemma update_empty_bucket:
  assumes "new_points_received d" and "sized d" and "[] \<in> set (new_points d)"
  shows "update d = Inl FrontOfEmptyVector"
proof (cases "update_levels [0 ..< max_octree_depth] d")
  case (Inl e)
  from update_levels_Inl [OF Inl] assms(2) have "e = FrontOfEmptyVector"
    by (simp add: sized_def)
  with Inl assms(1) show ?thesis by (simp add: update_def)
next
  case (Inr d')
  from update_levels_Inr [OF Inr] have "\<forall>i < max_octree_depth. new_points d ! i \<noteq> []"
    by simp
  with assms(2) have "[] \<notin> set (new_points d)"
    by (auto simp: sized_def in_set_conv_nth)
  with assms(3) show ?thesis by simp
qed

text \<open>
  Claim C4 against the code. The display holds one published point, in the bucket of
  depth 16, and the flag is set. The render tick reaches bucket 0, which is empty,
  and calls \<^verbatim>\<open>front()\<close> on it.
\<close>

theorem update_front_of_empty_bucket:
  "sized one_point_display \<and> new_points_received one_point_display \<and>
   new_points one_point_display ! 0 = [] \<and>
   update one_point_display = Inl FrontOfEmptyVector"
proof -
  have s: "sized one_point_display" "new_points_received one_point_display"
    "new_points one_point_display ! 0 = []"
    by (simp_all add: sized_def one_point_display_def blank_display_def max_octree_depth_def)
  then have "[] \<in> set (new_points one_point_display)"
    by (auto simp: in_set_conv_nth sized_def max_octree_depth_def intro!: exI [of _ 0])
  from update_empty_bucket [OF s(2,1) this] s show ?thesis by simp
qed

subsection \<open>Reset\<close>

text \<open>
  Claim C6, as the code has it. After \<^verbatim>\<open>reset\<close> every drawn cloud is empty, with its
  dimensions kept, and the message counter is 0; the buckets of \<^verbatim>\<open>new_points_\<close> and
  \<^verbatim>\<open>point_buf_\<close>, the box sizes and the flag \<^verbatim>\<open>new_points_received_\<close> are what they were.
\<close>

theorem reset_clears_clouds_only:
  "map cloud_points (cloud (reset d)) = replicate (length (cloud d)) [] \<and>
   map cloud_dimensions (cloud (reset d)) = map cloud_dimensions (cloud d) \<and>
   messages_received (reset d) = 0 \<and>
   new_points (reset d) = new_points d \<and> point_buf (reset d) = point_buf d \<and>
   box_size (reset d) = box_size d \<and>
   new_points_received (reset d) = new_points_received d"
  by (simp add: reset_def clear_def Let_def map_replicate_const comp_def)

text \<open>
  C6 as stated fails: after \<^verbatim>\<open>reset\<close> of a display with sixteen published points the
  flag is still set, the points are still in \<^verbatim>\<open>new_points_\<close>, and the next render tick
  draws them.
\<close>

theorem reset_keeps_published_counterexample:
  "new_points_received (reset full_display) \<and>
   new_points (reset full_display) = replicate 16 [green_point] \<and>
   (case update (reset full_display) of
      Inl e \<Rightarrow> False
    | Inr d \<Rightarrow> map cloud_points (cloud d) = replicate 16 [green_point])"
  by code_simp

end
